theory Spec2Isabelle
  imports Complex_Main "HOL-Library.Sublist"
begin

section \<open>Python values and exceptions\<close>

text \<open>
  The notebook \<^verbatim>\<open>accessing_s3_data.ipynb\<close> defines four helpers:
  \<^verbatim>\<open>get_bbox_single\<close>, \<^verbatim>\<open>read_in_s3\<close>, \<^verbatim>\<open>find_granules_by_zone\<close> and
  \<^verbatim>\<open>find_granule_by_point\<close>. They traverse the catalog that \<^verbatim>\<open>json.loads\<close>
  produced (nested dicts, lists, strings and numbers), so the catalog is modelled as a
  JSON value and every subscript as a function that can raise.

  A JSON number is a Python int or float (an IEEE double); each denotes a rational, and
  the model keeps that rational. A dict is the list of its items, each key once, as
  \<^verbatim>\<open>json.loads\<close> leaves it. A string is the list of its characters; the two patterns of
  the locator translation are ASCII.
\<close>

datatype py_error = KeyError | IndexError | TypeError | AttributeError | ValueError | CRSError

datatype json =
    JNull
  | JBool bool
  | JNum rat
  | JStr string
  | JArr "json list"
  | JObj "(string \<times> json) list"

text \<open>Sequencing of statements that can raise: the first exception ends the call.\<close>

definition bind :: "py_error + 'a \<Rightarrow> ('a \<Rightarrow> py_error + 'b) \<Rightarrow> py_error + 'b" where
  "bind m f = (case m of Inl e \<Rightarrow> Inl e | Inr v \<Rightarrow> f v)"

text \<open>\<^verbatim>\<open>obj[key]\<close> with a string key: only a dict can be subscripted by a string.\<close>

fun getitem :: "json \<Rightarrow> string \<Rightarrow> py_error + json" where
  "getitem (JObj kvs) k = (case map_of kvs k of None \<Rightarrow> Inl KeyError | Some v \<Rightarrow> Inr v)"
| "getitem _ k = Inl TypeError"

text \<open>
  \<^verbatim>\<open>obj[i]\<close> with a non-negative integer: a list or a string is indexed, a dict (whose
  keys are all strings) has no such key, and nothing else can be subscripted.
\<close>

fun getindex :: "json \<Rightarrow> nat \<Rightarrow> py_error + json" where
  "getindex (JArr xs) i = (if i < length xs then Inr (xs ! i) else Inl IndexError)"
| "getindex (JStr s) i = (if i < length s then Inr (JStr [s ! i]) else Inl IndexError)"
| "getindex (JObj kvs) i = Inl KeyError"
| "getindex _ i = Inl TypeError"

text \<open>\<^verbatim>\<open>len(obj)\<close>.\<close>

fun len :: "json \<Rightarrow> py_error + nat" where
  "len (JArr xs) = Inr (length xs)"
| "len (JStr s) = Inr (length s)"
| "len (JObj kvs) = Inr (length (remdups (map fst kvs)))"
| "len _ = Inl TypeError"

section \<open>Strings: \<^verbatim>\<open>str.replace\<close>\<close>

text \<open>
  \<^verbatim>\<open>s.replace(old, new)\<close> scans \<^verbatim>\<open>s\<close> from the left; where \<^verbatim>\<open>old\<close> starts it emits
  \<^verbatim>\<open>new\<close> and resumes after the occurrence, so the occurrences it replaces never
  overlap. For a non-empty \<^verbatim>\<open>old\<close>, resuming after the occurrence that starts at
  \<open>c # cs\<close> is dropping \<open>length old - 1\<close> elements of \<open>cs\<close>.
  With an empty \<^verbatim>\<open>old\<close>, Python inserts \<^verbatim>\<open>new\<close> before every character and at the end.
\<close>

fun replace_go :: "'a list \<Rightarrow> 'a list \<Rightarrow> 'a list \<Rightarrow> 'a list" where
  "replace_go old new [] = []"
| "replace_go old new (c # cs) =
     (if prefix old (c # cs)
      then new @ replace_go old new (drop (length old - 1) cs)
      else c # replace_go old new cs)"

definition str_replace :: "'a list \<Rightarrow> 'a list \<Rightarrow> 'a list \<Rightarrow> 'a list" where
  "str_replace s old new =
     (if old = [] then new @ concat (map (\<lambda>c. c # new) s) else replace_go old new s)"

text \<open>
  A pattern is unbordered when no proper non-empty prefix of it is also a suffix of it;
  two occurrences of such a pattern in a string never overlap.
\<close>

definition unbordered :: "'a list \<Rightarrow> bool" where
  "unbordered old = list_all (\<lambda>k. take k old \<noteq> drop (length old - k) old) [1..<length old]"

section \<open>Locator translation and \<^verbatim>\<open>read_in_s3\<close>\<close>

text \<open>
  \<^verbatim>\<open>
  s3_url = http_url.replace('http','s3')
  s3_url = s3_url.replace('.s3.amazonaws.com','')
  \<close>
  in \<^verbatim>\<open>read_in_s3\<close>, and the same two calls chained on one line in
  \<^verbatim>\<open>find_granules_by_zone\<close>.
\<close>

definition s3_url :: "string \<Rightarrow> string" where
  "s3_url http_url = str_replace (str_replace http_url ''http'' ''s3'') ''.s3.amazonaws.com'' ''''"

text \<open>
  \<^verbatim>\<open>read_in_s3\<close> hands the translated locator to \<^verbatim>\<open>xr.open_dataset\<close>, which belongs to
  xarray; it is a parameter here (it returns a dataset or raises).
\<close>

definition read_in_s3 :: "(string \<Rightarrow> py_error + 'ds) \<Rightarrow> string \<Rightarrow> py_error + 'ds" where
  "read_in_s3 open_dataset http_url = open_dataset (s3_url http_url)"

section \<open>Catalog lookups\<close>

type_synonym point = "rat \<times> rat"

text \<open>\<^verbatim>\<open>input_point[i]\<close> on the Python list the caller passes (\<^verbatim>\<open>[lon, lat]\<close>).\<close>

definition list_index :: "'a list \<Rightarrow> nat \<Rightarrow> py_error + 'a" where
  "list_index xs i = (if i < length xs then Inr (xs ! i) else Inl IndexError)"

text \<open>
  Both lookups are the same loop: \<^verbatim>\<open>for granule in range(n)\<close>, whose body either appends one
  item to the result list, appends nothing, or raises. The body is a function from the
  index to an optional item; an exception leaves the loop and the call.
\<close>

fun for_append :: "(nat \<Rightarrow> py_error + 'a option) \<Rightarrow> nat list \<Rightarrow> 'a list \<Rightarrow> py_error + 'a list" where
  "for_append body [] acc = Inr acc"
| "for_append body (i # rest) acc =
     (case body i of
        Inl e \<Rightarrow> Inl e
      | Inr None \<Rightarrow> for_append body rest acc
      | Inr (Some item) \<Rightarrow> for_append body rest (acc @ [item]))"

text \<open>
  The body of the loop of \<^verbatim>\<open>find_granule_by_point\<close>:
  \<^verbatim>\<open>
  bbox_ls = input_dict['features'][granule]['geometry']['coordinates'][0]
  bbox_geom = Polygon(bbox_ls)
  bbox_gdf = gpd.GeoDataFrame(index=[0], crs='epsg:4326', geometry = [bbox_geom])
  if bbox_gdf.contains(point_gdf).all() == True:
      target_granule_urls.append(input_dict['features'][granule]['properties']['zarr_url'])
  else:
      pass
  \<close>
  \<^verbatim>\<open>Polygon\<close> (the constructor, which can raise) and \<^verbatim>\<open>contains\<close> belong to Shapely and
  GeoPandas and are parameters. Both frames hold one geometry at index 0, so the
  element-wise \<^verbatim>\<open>contains\<close> followed by \<^verbatim>\<open>.all()\<close> is the single test of the polygon
  against the point. The appended value is whatever JSON value sits under \<^verbatim>\<open>zarr_url\<close>.
\<close>

definition point_body ::
  "(json \<Rightarrow> py_error + 'g) \<Rightarrow> ('g \<Rightarrow> point \<Rightarrow> bool) \<Rightarrow> json \<Rightarrow> point \<Rightarrow> nat
     \<Rightarrow> py_error + json option" where
  "point_body Polygon contains input_dict point_geom granule =
     bind (getitem input_dict ''features'') (\<lambda>features.
     bind (getindex features granule) (\<lambda>feature.
     bind (getitem feature ''geometry'') (\<lambda>geometry.
     bind (getitem geometry ''coordinates'') (\<lambda>coordinates.
     bind (getindex coordinates 0) (\<lambda>bbox_ls.
     bind (Polygon bbox_ls) (\<lambda>bbox_geom.
       if contains bbox_geom point_geom
       then bind (getitem input_dict ''features'') (\<lambda>features.
            bind (getindex features granule) (\<lambda>feature.
            bind (getitem feature ''properties'') (\<lambda>properties.
            bind (getitem properties ''zarr_url'') (\<lambda>zarr_url.
              Inr (Some zarr_url)))))
       else Inr None))))))"

text \<open>
  \<^verbatim>\<open>find_granule_by_point(input_dict, input_point)\<close>: the point is built first, from
  \<^verbatim>\<open>input_point[0]\<close> and \<^verbatim>\<open>input_point[1]\<close>, then the loop runs over
  \<^verbatim>\<open>range(len(input_dict['features']))\<close> and the list is returned.
\<close>

definition find_granule_by_point ::
  "(json \<Rightarrow> py_error + 'g) \<Rightarrow> ('g \<Rightarrow> point \<Rightarrow> bool) \<Rightarrow> json \<Rightarrow> rat list
     \<Rightarrow> py_error + json list" where
  "find_granule_by_point Polygon contains input_dict input_point =
     bind (list_index input_point 0) (\<lambda>x.
     bind (list_index input_point 1) (\<lambda>y.
     bind (getitem input_dict ''features'') (\<lambda>features.
     bind (len features) (\<lambda>n.
       for_append (point_body Polygon contains input_dict (x, y)) [0..<n] []))))"

text \<open>
  The body of the loop of \<^verbatim>\<open>find_granules_by_zone\<close>:
  \<^verbatim>\<open>
  if input_dict['features'][granule]['properties']['data_epsg'] == epsg_code:
      http_url = input_dict['features'][granule]['properties']['zarr_url']
      s3_url = http_url.replace('http','s3').replace('.s3.amazonaws.com','')
      if fs.lexists(s3_url) == True:
          url_ls.append(s3_url)
  \<close>
  \<^verbatim>\<open>epsg_code\<close> is a string, so \<^verbatim>\<open>==\<close> holds for the JSON string with the same text only.
  \<^verbatim>\<open>.replace\<close> exists on strings only: any other value under \<^verbatim>\<open>zarr_url\<close> raises
  \<^verbatim>\<open>AttributeError\<close>. \<^verbatim>\<open>fs.lexists\<close> asks the object store; its answers at the time of
  the call are the parameter \<open>lexists\<close>.
\<close>

definition zone_body :: "(string \<Rightarrow> bool) \<Rightarrow> json \<Rightarrow> string \<Rightarrow> nat \<Rightarrow> py_error + string option" where
  "zone_body lexists input_dict epsg_code granule =
     bind (getitem input_dict ''features'') (\<lambda>features.
     bind (getindex features granule) (\<lambda>feature.
     bind (getitem feature ''properties'') (\<lambda>properties.
     bind (getitem properties ''data_epsg'') (\<lambda>data_epsg.
       if data_epsg = JStr epsg_code
       then bind (getitem input_dict ''features'') (\<lambda>features.
            bind (getindex features granule) (\<lambda>feature.
            bind (getitem feature ''properties'') (\<lambda>properties.
            bind (getitem properties ''zarr_url'') (\<lambda>http_url.
              case http_url of
                JStr u \<Rightarrow> if lexists (s3_url u) then Inr (Some (s3_url u)) else Inr None
              | _ \<Rightarrow> Inl AttributeError))))
       else Inr None))))"

definition find_granules_by_zone :: "(string \<Rightarrow> bool) \<Rightarrow> json \<Rightarrow> string \<Rightarrow> py_error + string list" where
  "find_granules_by_zone lexists input_dict epsg_code =
     bind (getitem input_dict ''features'') (\<lambda>features.
     bind (len features) (\<lambda>n.
       for_append (zone_body lexists input_dict epsg_code) [0..<n] []))"

section \<open>Well-formed catalogs\<close>

text \<open>
  The three fields a lookup reads from a feature: the first coordinate ring of its
  geometry, and two of its properties. A feature may carry any other key.
\<close>

definition feature_ring :: "json \<Rightarrow> py_error + json" where
  "feature_ring j =
     bind (getitem j ''geometry'') (\<lambda>geometry.
     bind (getitem geometry ''coordinates'') (\<lambda>coordinates.
       getindex coordinates 0))"

definition feature_property :: "json \<Rightarrow> string \<Rightarrow> py_error + json" where
  "feature_property j k = bind (getitem j ''properties'') (\<lambda>properties. getitem properties k)"

record feature =
  ring :: json
  zone :: string
  locator :: string

definition represents :: "json \<Rightarrow> feature \<Rightarrow> bool" where
  "represents j f \<longleftrightarrow>
     feature_ring j = Inr (ring f)
     \<and> feature_property j ''data_epsg'' = Inr (JStr (zone f))
     \<and> feature_property j ''zarr_url'' = Inr (JStr (locator f))"

text \<open>
  A catalog document is well formed when its \<^verbatim>\<open>features\<close> entry is a list whose elements
  carry the three fields; \<open>fs\<close> is then the catalog as the ordered collection of features.
\<close>

definition is_catalog :: "json \<Rightarrow> feature list \<Rightarrow> bool" where
  "is_catalog input_dict fs =
     (case getitem input_dict ''features'' of
        Inr (JArr js) \<Rightarrow> list_all2 represents js fs
      | _ \<Rightarrow> False)"

section \<open>Shapely's polygon and its \<^verbatim>\<open>contains\<close>\<close>

text \<open>
  The geometry library is not part of the notebook. What follows is the part of its
  documented behaviour that the point lookup relies on, for a polygon without holes (the
  lookup passes the first ring only) and a point.

  \<^verbatim>\<open>Polygon(shell)\<close> (Shapely 2) takes a sequence of coordinate pairs or triples; an empty
  sequence gives the empty polygon, one or two coordinates are rejected, and a ring whose
  last coordinate differs from its first (or that has three coordinates) is closed by
  repeating the first.
\<close>

fun coord :: "json \<Rightarrow> py_error + point" where
  "coord (JArr [JNum x, JNum y]) = Inr (x, y)"
| "coord (JArr [JNum x, JNum y, JNum z]) = Inr (x, y)"
| "coord _ = Inl ValueError"

fun coords :: "json list \<Rightarrow> py_error + point list" where
  "coords [] = Inr []"
| "coords (c # cs) = bind (coord c) (\<lambda>p. bind (coords cs) (\<lambda>ps. Inr (p # ps)))"

definition shapely_Polygon :: "json \<Rightarrow> py_error + point list" where
  "shapely_Polygon shell =
     (case shell of
        JArr cs \<Rightarrow>
          bind (coords cs) (\<lambda>pts.
            if pts = [] then Inr []
            else if length pts < 3 then Inl ValueError
            else if length pts = 3 \<or> hd pts \<noteq> last pts then Inr (pts @ [hd pts])
            else Inr pts)
      | _ \<Rightarrow> Inl TypeError)"

text \<open>
  \<^verbatim>\<open>a.contains(b)\<close> holds when no point of \<^verbatim>\<open>b\<close> lies in the exterior of \<^verbatim>\<open>a\<close> and at
  least one point of the interior of \<^verbatim>\<open>b\<close> lies in the interior of \<^verbatim>\<open>a\<close>. For a point
  \<^verbatim>\<open>b\<close> that is: the point lies in the interior of the polygon. The point is located
  against the ring: on an edge it is on the boundary; otherwise it is inside when a ray
  from it to the right crosses the ring an odd number of times. GEOS decides the
  orientation of three double coordinates exactly, so the tests are those of the
  rationals the doubles denote.
\<close>

definition orientation :: "point \<Rightarrow> point \<Rightarrow> point \<Rightarrow> rat" where
  "orientation a b q = (fst b - fst a) * (snd q - snd a) - (snd b - snd a) * (fst q - fst a)"

definition on_segment :: "point \<Rightarrow> point \<Rightarrow> point \<Rightarrow> bool" where
  "on_segment q a b \<longleftrightarrow>
     orientation a b q = 0
     \<and> min (fst a) (fst b) \<le> fst q \<and> fst q \<le> max (fst a) (fst b)
     \<and> min (snd a) (snd b) \<le> snd q \<and> snd q \<le> max (snd a) (snd b)"

definition crosses :: "point \<Rightarrow> point \<Rightarrow> point \<Rightarrow> bool" where
  "crosses q a b \<longleftrightarrow>
     (snd q < snd a) \<noteq> (snd q < snd b)
     \<and> fst q < fst a + (snd q - snd a) * (fst b - fst a) / (snd b - snd a)"

definition edges :: "point list \<Rightarrow> (point \<times> point) list" where
  "edges shell = zip shell (tl shell)"

definition on_boundary :: "point \<Rightarrow> point list \<Rightarrow> bool" where
  "on_boundary q shell = list_ex (\<lambda>(a, b). on_segment q a b) (edges shell)"

datatype location = Interior | Boundary | Exterior

definition locate :: "point \<Rightarrow> point list \<Rightarrow> location" where
  "locate q shell =
     (if on_boundary q shell then Boundary
      else if odd (length (filter (\<lambda>(a, b). crosses q a b) (edges shell))) then Interior
      else Exterior)"

definition shapely_contains :: "point list \<Rightarrow> point \<Rightarrow> bool" where
  "shapely_contains shell q \<longleftrightarrow> locate q shell = Interior"

section \<open>\<^verbatim>\<open>get_bbox_single\<close>\<close>

text \<open>
  What \<^verbatim>\<open>get_bbox_single\<close> reads of the dataset: the data of the coordinates \<^verbatim>\<open>x\<close> and
  \<^verbatim>\<open>y\<close> (\<^verbatim>\<open>input_xr.coords['x']\<close> raises \<^verbatim>\<open>KeyError\<close> when there is none) and the text
  that the f-string makes of \<^verbatim>\<open>input_xr.mapping.spatial_epsg\<close> (the attribute access
  raises \<^verbatim>\<open>AttributeError\<close> when the variable or its attribute is missing).
\<close>

record dataset =
  coords_x :: "rat list option"
  coords_y :: "rat list option"
  spatial_epsg :: "string option"

text \<open>A one-row \<^verbatim>\<open>GeoDataFrame\<close>: its coordinate reference system and the ring of its polygon.\<close>

record geodataframe =
  crs :: string
  geometry :: "point list"

text \<open>The map that the function draws: the extent of the axes and the polygon plotted on them.\<close>

record figure =
  extent :: "rat list"
  drawn :: geodataframe

text \<open>
  The libraries that \<^verbatim>\<open>get_bbox_single\<close> calls; none of them is part of the notebook.
  \<^item> \<open>crs_known\<close> says which identifiers the projection library accepts (the frame's
    constructor raises on any other), and \<open>transform\<close> is its coordinate transformation,
    which \<^verbatim>\<open>to_crs\<close> applies to each vertex.
  \<^item> \<open>round_double\<close>: the bounds are doubles, and \<^verbatim>\<open>bounds[0]-15\<close> is the exact
    difference rounded to a double; \<open>round_double\<close> is that rounding.
  \<^item> \<open>background\<close> stands for lines 157 to 169: the Natural Earth feature, the figure, the
    axes, the stock image and the three layers, any of which can raise.
  \<^item> \<open>set_extent\<close> is Cartopy's \<^verbatim>\<open>ax.set_extent\<close>, which raises \<^verbatim>\<open>ValueError\<close> on an
    extent that it cannot place in the projection of the axes.
  \<^item> \<open>plot\<close> is \<^verbatim>\<open>GeoDataFrame.plot\<close>.
\<close>

record library =
  crs_known :: "string \<Rightarrow> bool"
  transform :: "string \<Rightarrow> string \<Rightarrow> point \<Rightarrow> point"
  round_double :: "rat \<Rightarrow> rat"
  background :: "py_error + unit"
  set_extent :: "rat list \<Rightarrow> py_error + unit"
  plot :: "geodataframe \<Rightarrow> py_error + unit"

definition coords_data :: "rat list option \<Rightarrow> py_error + rat list" where
  "coords_data c = (case c of None \<Rightarrow> Inl KeyError | Some d \<Rightarrow> Inr d)"

text \<open>\<^verbatim>\<open>.min()\<close> and \<^verbatim>\<open>.max()\<close> of a NumPy array: a reduction, which raises on an empty array.\<close>

fun array_min :: "rat list \<Rightarrow> py_error + rat" where
  "array_min [] = Inl ValueError"
| "array_min (v # vs) = Inr (fold min vs v)"

fun array_max :: "rat list \<Rightarrow> py_error + rat" where
  "array_max [] = Inl ValueError"
| "array_max (v # vs) = Inr (fold max vs v)"

text \<open>\<^verbatim>\<open>total_bounds\<close>: \<^verbatim>\<open>[minx, miny, maxx, maxy]\<close> over the vertices of the geometry.\<close>

definition total_bounds :: "geodataframe \<Rightarrow> rat list" where
  "total_bounds gdf =
     (let xs = map fst (geometry gdf); ys = map snd (geometry gdf)
      in [fold min (tl xs) (hd xs), fold min (tl ys) (hd ys),
          fold max (tl xs) (hd xs), fold max (tl ys) (hd ys)])"

text \<open>
  \<^verbatim>\<open>
  xmin = input_xr.coords['x'].data.min()
  xmax = input_xr.coords['x'].data.max()
  ymin = input_xr.coords['y'].data.min()
  ymax = input_xr.coords['y'].data.max()
  pts_ls = [(xmin, ymin), (xmax, ymin),(xmax, ymax), (xmin, ymax), (xmin, ymin)]
  crs = f"epsg:{input_xr.mapping.spatial_epsg}"
  polygon_geom = Polygon(pts_ls)
  polygon = gpd.GeoDataFrame(index=[0], crs=crs, geometry=[polygon_geom])
  polygon = polygon.to_crs('epsg:4326')
  bounds = polygon.total_bounds
  bounds_format = [bounds[0]-15, bounds[2]+15, bounds[1]-15, bounds[3]+15]
  states_provinces = cfeature.NaturalEarthFeature(...)
  fig = plt.figure()
  ax = fig.add_subplot(111, projection = ccrs.PlateCarree())
  ax.stock_img()
  ax.add_feature(cfeature.COASTLINE)
  ax.add_feature(cfeature.LAND)
  ax.add_feature(states_provinces)
  ax.set_extent(bounds_format, crs = ccrs.PlateCarree())
  polygon.plot(ax=ax, facecolor = 'none', edgecolor='red', lw=1.);
  \<close>
  The body ends there: it has no \<^verbatim>\<open>return\<close>, so a call that raises nothing returns
  \<^verbatim>\<open>None\<close>, and what it leaves is the figure. The calls come in the order of the source:
  the extent is set before the polygon is plotted, and an exception of either ends the
  call.
\<close>

definition get_bbox_single :: "library \<Rightarrow> dataset \<Rightarrow> py_error + (geodataframe option \<times> figure)" where
  "get_bbox_single lib input_xr =
     bind (bind (coords_data (coords_x input_xr)) array_min) (\<lambda>xmin.
     bind (bind (coords_data (coords_x input_xr)) array_max) (\<lambda>xmax.
     bind (bind (coords_data (coords_y input_xr)) array_min) (\<lambda>ymin.
     bind (bind (coords_data (coords_y input_xr)) array_max) (\<lambda>ymax.
       let pts_ls = [(xmin, ymin), (xmax, ymin), (xmax, ymax), (xmin, ymax), (xmin, ymin)] in
       case spatial_epsg input_xr of
         None \<Rightarrow> Inl AttributeError
       | Some epsg \<Rightarrow>
           let crs = ''epsg:'' @ epsg in
           if \<not> crs_known lib crs then Inl CRSError
           else
             let polygon = \<lparr>crs = ''epsg:4326'',
                            geometry = map (transform lib crs ''epsg:4326'') pts_ls\<rparr>;
                 bounds = total_bounds polygon;
                 bounds_format = [round_double lib (bounds ! 0 - 15), round_double lib (bounds ! 2 + 15),
                                  round_double lib (bounds ! 1 - 15), round_double lib (bounds ! 3 + 15)]
             in bind (background lib) (\<lambda>_.
                bind (set_extent lib bounds_format) (\<lambda>_.
                bind (plot lib polygon) (\<lambda>_.
                  Inr (None, \<lparr>extent = bounds_format, drawn = polygon\<rparr>))))))))"

section \<open>Example data\<close>

text \<open>A rectangular footprint as the catalog writes it: five vertices, the first repeated.\<close>

definition rectangle :: "rat \<Rightarrow> rat \<Rightarrow> rat \<Rightarrow> rat \<Rightarrow> json" where
  "rectangle x0 y0 x1 y1 =
     JArr [JArr [JNum x0, JNum y0], JArr [JNum x1, JNum y0], JArr [JNum x1, JNum y1],
           JArr [JNum x0, JNum y1], JArr [JNum x0, JNum y0]]"

definition geojson_feature :: "json \<Rightarrow> string \<Rightarrow> string \<Rightarrow> json" where
  "geojson_feature shell epsg url =
     JObj [(''type'', JStr ''Feature''),
           (''geometry'', JObj [(''type'', JStr ''Polygon''), (''coordinates'', JArr [shell])]),
           (''properties'', JObj [(''data_epsg'', JStr epsg), (''zarr_url'', JStr url)])]"

text \<open>
  Three cubes: two in zone 32645 whose footprints overlap between longitudes 84.5 and
  85, and one in zone 3413.
\<close>

definition example_catalog :: json where
  "example_catalog =
     JObj [(''type'', JStr ''FeatureCollection''),
           (''features'', JArr [
              geojson_feature (rectangle 84 28 85 29) ''EPSG:32645''
                ''http://its-live-data.s3.amazonaws.com/a.zarr'',
              geojson_feature (rectangle (169 / 2) 28 86 29) ''EPSG:32645''
                ''http://its-live-data.s3.amazonaws.com/b.zarr'',
              geojson_feature (rectangle (- 50) 60 (- 49) 61) ''EPSG:3413''
                ''http://its-live-data.s3.amazonaws.com/c.zarr''])]"

definition example_features :: "feature list" where
  "example_features =
     [\<lparr>ring = rectangle 84 28 85 29, zone = ''EPSG:32645'',
        locator = ''http://its-live-data.s3.amazonaws.com/a.zarr''\<rparr>,
      \<lparr>ring = rectangle (169 / 2) 28 86 29, zone = ''EPSG:32645'',
        locator = ''http://its-live-data.s3.amazonaws.com/b.zarr''\<rparr>,
      \<lparr>ring = rectangle (- 50) 60 (- 49) 61, zone = ''EPSG:3413'',
        locator = ''http://its-live-data.s3.amazonaws.com/c.zarr''\<rparr>]"

definition example_footprint :: "feature \<Rightarrow> point list" where
  "example_footprint f = (case shapely_Polygon (ring f) of Inr g \<Rightarrow> g | Inl e \<Rightarrow> [])"

text \<open>
  The catalog of the specification's scenario: one feature with footprint (84,28)-(85,29),
  zone \<^verbatim>\<open>EPSG:32645\<close> and locator \<^verbatim>\<open>http://example.com/a.zarr\<close>.
\<close>

definition scenario_catalog :: json where
  "scenario_catalog =
     JObj [(''features'', JArr [
        geojson_feature (rectangle 84 28 85 29) ''EPSG:32645'' ''http://example.com/a.zarr''])]"

text \<open>
  A catalog whose only feature has a footprint and a zone and no \<^verbatim>\<open>zarr_url\<close>, and one
  whose only feature has no \<^verbatim>\<open>geometry\<close>.
\<close>

definition catalog_without_url :: json where
  "catalog_without_url =
     JObj [(''features'', JArr [
        JObj [(''geometry'', JObj [(''coordinates'', JArr [rectangle 84 28 85 29])]),
              (''properties'', JObj [(''data_epsg'', JStr ''EPSG:32645'')])]])]"

definition catalog_without_zone :: json where
  "catalog_without_zone =
     JObj [(''features'', JArr [
        JObj [(''geometry'', JObj [(''coordinates'', JArr [rectangle 84 28 85 29])]),
              (''properties'', JObj [(''zarr_url'', JStr ''http://example.com/a.zarr'')])]])]"

definition catalog_without_geometry :: json where
  "catalog_without_geometry =
     JObj [(''features'', JArr [
        JObj [(''properties'', JObj [(''data_epsg'', JStr ''EPSG:32645''),
                                     (''zarr_url'', JStr ''http://example.com/a.zarr'')])]])]"

text \<open>
  A dataset whose coordinates are degrees of longitude and latitude (projection 4326),
  and one with the same projection whose coordinate values are not degrees.
\<close>

definition example_dataset :: dataset where
  "example_dataset =
     \<lparr>coords_x = Some [84, 169 / 2, 85], coords_y = Some [29, 57 / 2, 28],
      spatial_epsg = Some ''4326''\<rparr>"

definition off_map_dataset :: dataset where
  "off_map_dataset =
     \<lparr>coords_x = Some [0, 120, 240], coords_y = Some [360, 240, 120],
      spatial_epsg = Some ''4326''\<rparr>"

text \<open>
  Libraries for the examples: the projection library knows the geographic system only,
  so the one transformation asked of it is from \<^verbatim>\<open>epsg:4326\<close> to itself, which changes
  nothing; the numbers of the examples are doubles, which rounding leaves as they are;
  the map accepts an extent within the longitudes -180 to 180 and the latitudes -90 to
  90 and raises on any other.
\<close>

definition example_library :: library where
  "example_library =
     \<lparr>crs_known = (\<lambda>c. c = ''epsg:4326''),
      transform = (\<lambda>src dst p. p),
      round_double = (\<lambda>v. v),
      background = Inr (),
      set_extent = (\<lambda>e. if - 180 \<le> e ! 0 \<and> e ! 1 \<le> 180 \<and> - 90 \<le> e ! 2 \<and> e ! 3 \<le> 90
                          then Inr () else Inl ValueError),
      plot = (\<lambda>g. Inr ())\<rparr>"

section \<open>Sequencing\<close>

lemma bind_Inr [simp]: "bind (Inr v) f = f v"
  by (simp add: bind_def)

lemma bind_Inl [simp]: "bind (Inl e) f = Inl e"
  by (simp add: bind_def)

lemma bind_eq_Inr: "bind m f = Inr r \<longleftrightarrow> (\<exists>v. m = Inr v \<and> f v = Inr r)"
  by (cases m) auto

lemma bind_eq_Inl: "bind m f = Inl e \<longleftrightarrow> m = Inl e \<or> (\<exists>v. m = Inr v \<and> f v = Inl e)"
  by (cases m) auto

section \<open>Facts about \<^verbatim>\<open>str.replace\<close>\<close>

lemma replace_go_no_occurrence:
  "\<not> sublist old s \<Longrightarrow> replace_go old new s = s"
proof (induction s)
  case Nil
  show ?case by simp
next
  case (Cons c cs)
  from Cons.prems have "\<not> prefix old (c # cs)" and "\<not> sublist old cs"
    by (auto simp: sublist_Cons_right)
  with Cons.IH show ?case by simp
qed

lemma replace_go_skip:
  "old \<noteq> [] \<Longrightarrow> c \<noteq> hd old \<Longrightarrow> replace_go old new (c # cs) = c # replace_go old new cs"
  by (cases old) auto

lemma unbordered_http: "unbordered ''http''"
  by (simp add: unbordered_def upt_rec)

lemma unbordered_gateway: "unbordered ''.s3.amazonaws.com''"
  by (simp add: unbordered_def upt_rec)

lemma unborderedD:
  "unbordered old \<Longrightarrow> 0 < k \<Longrightarrow> k < length old \<Longrightarrow> take k old \<noteq> drop (length old - k) old"
  by (simp add: unbordered_def list_all_iff)

text \<open>
  An occurrence of \<open>old\<close> that starts inside \<open>xs\<close> and runs into the \<open>old\<close> that follows
  makes the end of \<open>old\<close> equal to its beginning.
\<close>

lemma prefix_straddle_border:
  assumes p: "prefix old (xs @ old @ ys)" and lt: "length xs < length old"
  shows "take (length old - length xs) old = drop (length xs) old"
proof -
  from p have "old = take (length old) (xs @ old @ ys)"
    by (metis append_eq_conv_conj prefixE)
  also have "\<dots> = xs @ take (length old - length xs) old"
    using lt by simp
  finally have "old = xs @ take (length old - length xs) old" .
  then have "drop (length xs) old = drop (length xs) (xs @ take (length old - length xs) old)"
    by simp
  then show ?thesis by simp
qed

text \<open>
  For an unbordered pattern the scan is compositional: an occurrence is replaced wherever
  it stands, and what precedes and follows it is processed on its own.
\<close>

lemma replace_go_occurrence:
  assumes u: "unbordered old" and ne: "old \<noteq> []"
  shows "replace_go old new (xs @ old @ ys) = replace_go old new xs @ new @ replace_go old new ys"
proof (induction xs rule: length_induct)
  case (1 xs)
  show ?case
  proof (cases xs)
    case Nil
    obtain a as where old: "old = a # as" using ne by (cases old) auto
    show ?thesis using Nil old by simp
  next
    case (Cons c cs)
    show ?thesis
    proof (cases "prefix old (xs @ old @ ys)")
      case True
      have le: "length old \<le> length xs"
      proof (rule ccontr)
        assume "\<not> length old \<le> length xs"
        then have lt: "length xs < length old" by simp
        have "take (length old - length xs) old = drop (length xs) old"
          using prefix_straddle_border [OF True lt] by simp
        moreover have "0 < length old - length xs" "length old - length xs < length old"
          using lt Cons by auto
        ultimately show False
          using unborderedD [OF u, of "length old - length xs"] lt by simp
      qed
      with True have pre: "prefix old xs"
        by (auto simp: prefix_append dest: prefix_length_le)
      have d: "drop (length old - 1) (cs @ old @ ys) = drop (length old - 1) cs @ old @ ys"
        using le Cons by simp
      have "length (drop (length old - 1) cs) < length xs"
        using Cons by simp
      with 1 have "replace_go old new (drop (length old - 1) cs @ old @ ys)
          = replace_go old new (drop (length old - 1) cs) @ new @ replace_go old new ys"
        by blast
      with True pre d Cons show ?thesis by simp
    next
      case False
      then have npre: "\<not> prefix old xs"
        using prefix_prefix by blast
      have "length cs < length xs" using Cons by simp
      with 1 have "replace_go old new (cs @ old @ ys)
          = replace_go old new cs @ new @ replace_go old new ys"
        by blast
      with False npre Cons show ?thesis by simp
    qed
  qed
qed

lemma str_replace_http:
  "str_replace (xs @ ''http'' @ ys) ''http'' ''s3''
     = str_replace xs ''http'' ''s3'' @ ''s3'' @ str_replace ys ''http'' ''s3''"
  unfolding str_replace_def using replace_go_occurrence [OF unbordered_http] by simp

lemma str_replace_gateway:
  "str_replace (xs @ ''.s3.amazonaws.com'' @ ys) ''.s3.amazonaws.com'' ''''
     = str_replace xs ''.s3.amazonaws.com'' '''' @ str_replace ys ''.s3.amazonaws.com'' ''''"
  unfolding str_replace_def using replace_go_occurrence [OF unbordered_gateway, where new = "''''"] by simp

lemma str_replace_no_occurrence:
  "old \<noteq> [] \<Longrightarrow> \<not> sublist old s \<Longrightarrow> str_replace s old new = s"
  by (simp add: str_replace_def replace_go_no_occurrence)

text \<open>A locator that begins with \<^verbatim>\<open>http\<close> is translated to one that begins with \<^verbatim>\<open>s3\<close>.\<close>

lemma s3_url_http:
  "s3_url (''http'' @ r)
     = ''s3'' @ str_replace (str_replace r ''http'' ''s3'') ''.s3.amazonaws.com'' ''''"
proof -
  have "str_replace (''http'' @ r) ''http'' ''s3'' = ''s3'' @ str_replace r ''http'' ''s3''"
    using str_replace_http [of "[]" r] by (simp add: str_replace_def)
  then show ?thesis
    by (simp add: s3_url_def) (simp add: str_replace_def)
qed

lemma s3_url_http_prefix:
  assumes "prefix ''http'' u"
  shows "prefix ''s3'' (s3_url u)" and "s3_url u \<noteq> u"
proof -
  from assms obtain r where u: "u = ''http'' @ r"
    by (auto simp: prefix_def)
  show "prefix ''s3'' (s3_url u)"
    unfolding u s3_url_http by simp
  show "s3_url u \<noteq> u"
    unfolding u s3_url_http by simp
qed

section \<open>The loop\<close>

text \<open>When no iteration raises, the loop appends the items of the iterations in order.\<close>

lemma for_append_ok:
  "(\<And>i. i \<in> set idxs \<Longrightarrow> body i = Inr (r i)) \<Longrightarrow>
   for_append body idxs acc = Inr (acc @ List.map_filter r idxs)"
proof (induction idxs arbitrary: acc)
  case Nil
  show ?case by (simp add: List.map_filter_simps)
next
  case (Cons i rest)
  have "body i = Inr (r i)" using Cons.prems by simp
  moreover have "\<And>a. for_append body rest a = Inr (a @ List.map_filter r rest)"
    using Cons.IH Cons.prems by simp
  ultimately show ?case
    by (cases "r i") (simp_all add: List.map_filter_simps)
qed

text \<open>When an iteration raises, the call raises.\<close>

lemma for_append_raises:
  "i \<in> set idxs \<Longrightarrow> body i = Inl e \<Longrightarrow> \<exists>e'. for_append body idxs acc = Inl e'"
proof (induction idxs arbitrary: acc)
  case Nil
  then show ?case by simp
next
  case (Cons j rest)
  show ?case
  proof (cases "body j")
    case (Inl e')
    then show ?thesis by simp
  next
    case (Inr v)
    with Cons have "i \<in> set rest" by auto
    with Cons Inr show ?thesis by (cases v) auto
  qed
qed

lemma map_filter_index:
  "List.map_filter (\<lambda>i. if P (xs ! i) then Some (g (xs ! i)) else None) [0..<length xs]
     = map g (filter P xs)"
proof -
  have "List.map_filter (\<lambda>i. if P (xs ! i) then Some (g (xs ! i)) else None) [0..<length xs]
      = List.map_filter (\<lambda>x. if P x then Some (g x) else None) (map ((!) xs) [0..<length xs])"
    by (simp add: List.map_filter_def filter_map comp_def)
  also have "\<dots> = map g (filter P xs)"
    by (simp add: map_nth List.map_filter_def comp_def cong: map_cong)
  finally show ?thesis .
qed

section \<open>The lookups on a well-formed catalog\<close>

lemma is_catalogD:
  assumes "is_catalog input_dict fs"
  obtains js where "getitem input_dict ''features'' = Inr (JArr js)" and "list_all2 represents js fs"
  using assms by (auto simp: is_catalog_def split: sum.splits json.splits)

lemma point_body_feature:
  assumes feats: "getitem input_dict ''features'' = Inr (JArr js)"
    and i: "i < length js"
    and rep: "represents (js ! i) f"
    and poly: "Polygon (ring f) = Inr g"
  shows "point_body Polygon contains input_dict p i
           = Inr (if contains g p then Some (JStr (locator f)) else None)"
proof -
  from rep obtain geometry coordinates properties where
    g: "getitem (js ! i) ''geometry'' = Inr geometry"
    and c: "getitem geometry ''coordinates'' = Inr coordinates"
    and r: "getindex coordinates 0 = Inr (ring f)"
    and pr: "getitem (js ! i) ''properties'' = Inr properties"
    and u: "getitem properties ''zarr_url'' = Inr (JStr (locator f))"
    by (auto simp: represents_def feature_ring_def feature_property_def bind_eq_Inr)
  show ?thesis
    using feats i g c r pr u poly by (simp add: point_body_def)
qed

lemma find_granule_by_point_catalog:
  assumes cat: "is_catalog input_dict fs"
    and poly: "\<And>f. f \<in> set fs \<Longrightarrow> Polygon (ring f) = Inr (footprint f)"
  shows "find_granule_by_point Polygon contains input_dict [lon, lat]
           = Inr (map (\<lambda>f. JStr (locator f)) (filter (\<lambda>f. contains (footprint f) (lon, lat)) fs))"
proof -
  from cat obtain js where feats: "getitem input_dict ''features'' = Inr (JArr js)"
    and reps: "list_all2 represents js fs"
    by (rule is_catalogD)
  have n: "length js = length fs"
    using reps by (rule list_all2_lengthD)
  let ?r = "\<lambda>i. if contains (footprint (fs ! i)) (lon, lat) then Some (JStr (locator (fs ! i))) else None"
  have body: "point_body Polygon contains input_dict (lon, lat) i = Inr (?r i)"
    if "i \<in> set [0..<length fs]" for i
  proof -
    from that have i: "i < length js" using n by simp
    then have "represents (js ! i) (fs ! i)"
      using reps by (simp add: list_all2_nthD)
    moreover have "Polygon (ring (fs ! i)) = Inr (footprint (fs ! i))"
      using i n by (simp add: poly)
    ultimately show ?thesis
      using feats i by (rule point_body_feature [rotated 2])
  qed
  have "for_append (point_body Polygon contains input_dict (lon, lat)) [0..<length fs] []
          = Inr ([] @ List.map_filter ?r [0..<length fs])"
    using body by (rule for_append_ok)
  moreover have "List.map_filter ?r [0..<length fs]
      = map (\<lambda>f. JStr (locator f)) (filter (\<lambda>f. contains (footprint f) (lon, lat)) fs)"
    by (rule map_filter_index
        [where P = "\<lambda>f. contains (footprint f) (lon, lat)" and g = "\<lambda>f. JStr (locator f)"])
  ultimately show ?thesis
    using feats n by (simp add: find_granule_by_point_def list_index_def)
qed

lemma zone_body_feature:
  assumes feats: "getitem input_dict ''features'' = Inr (JArr js)"
    and i: "i < length js"
    and rep: "represents (js ! i) f"
  shows "zone_body lexists input_dict epsg_code i
           = Inr (if zone f = epsg_code \<and> lexists (s3_url (locator f))
                  then Some (s3_url (locator f)) else None)"
proof -
  from rep obtain properties where
    pr: "getitem (js ! i) ''properties'' = Inr properties"
    and z: "getitem properties ''data_epsg'' = Inr (JStr (zone f))"
    and u: "getitem properties ''zarr_url'' = Inr (JStr (locator f))"
    by (auto simp: represents_def feature_property_def bind_eq_Inr)
  show ?thesis
    using feats i pr z u by (simp add: zone_body_def)
qed

lemma find_granules_by_zone_catalog:
  assumes cat: "is_catalog input_dict fs"
  shows "find_granules_by_zone lexists input_dict epsg_code
           = Inr (map (\<lambda>f. s3_url (locator f))
                    (filter (\<lambda>f. zone f = epsg_code \<and> lexists (s3_url (locator f))) fs))"
proof -
  from cat obtain js where feats: "getitem input_dict ''features'' = Inr (JArr js)"
    and reps: "list_all2 represents js fs"
    by (rule is_catalogD)
  have n: "length js = length fs"
    using reps by (rule list_all2_lengthD)
  let ?r = "\<lambda>i. if zone (fs ! i) = epsg_code \<and> lexists (s3_url (locator (fs ! i)))
                then Some (s3_url (locator (fs ! i))) else None"
  have body: "zone_body lexists input_dict epsg_code i = Inr (?r i)"
    if "i \<in> set [0..<length fs]" for i
  proof -
    from that have i: "i < length js" using n by simp
    then have "represents (js ! i) (fs ! i)"
      using reps by (simp add: list_all2_nthD)
    with feats i show ?thesis by (rule zone_body_feature)
  qed
  have "for_append (zone_body lexists input_dict epsg_code) [0..<length fs] []
          = Inr ([] @ List.map_filter ?r [0..<length fs])"
    using body by (rule for_append_ok)
  moreover have "List.map_filter ?r [0..<length fs]
      = map (\<lambda>f. s3_url (locator f))
          (filter (\<lambda>f. zone f = epsg_code \<and> lexists (s3_url (locator f))) fs)"
    by (rule map_filter_index
        [where P = "\<lambda>f. zone f = epsg_code \<and> lexists (s3_url (locator f))"
           and g = "\<lambda>f. s3_url (locator f)"])
  ultimately show ?thesis
    using feats n by (simp add: find_granules_by_zone_def)
qed

text \<open>An iteration that raises makes the lookup raise.\<close>

lemma find_granule_by_point_raises:
  assumes feats: "getitem input_dict ''features'' = Inr (JArr js)"
    and i: "i < length js"
    and body: "point_body Polygon contains input_dict (lon, lat) i = Inl e"
  shows "\<exists>e'. find_granule_by_point Polygon contains input_dict [lon, lat] = Inl e'"
proof -
  from i have "i \<in> set [0..<length js]" by simp
  then have "\<exists>e'. for_append (point_body Polygon contains input_dict (lon, lat)) [0..<length js] []
      = Inl e'"
    using body by (rule for_append_raises)
  with feats show ?thesis
    by (simp add: find_granule_by_point_def list_index_def)
qed

lemma find_granules_by_zone_raises:
  assumes feats: "getitem input_dict ''features'' = Inr (JArr js)"
    and i: "i < length js"
    and body: "zone_body lexists input_dict epsg_code i = Inl e"
  shows "\<exists>e'. find_granules_by_zone lexists input_dict epsg_code = Inl e'"
proof -
  from i have "i \<in> set [0..<length js]" by simp
  then have "\<exists>e'. for_append (zone_body lexists input_dict epsg_code) [0..<length js] [] = Inl e'"
    using body by (rule for_append_raises)
  with feats show ?thesis
    by (simp add: find_granules_by_zone_def)
qed

section \<open>The rectangle of \<^verbatim>\<open>get_bbox_single\<close>\<close>

lemma array_min_Min: "xs \<noteq> [] \<Longrightarrow> array_min xs = Inr (Min (set xs))"
  by (cases xs) (simp_all flip: Min.set_eq_fold)

lemma array_max_Max: "xs \<noteq> [] \<Longrightarrow> array_max xs = Inr (Max (set xs))"
  by (cases xs) (simp_all flip: Max.set_eq_fold)

text \<open>
  When no library call raises, the call draws the reprojected rectangle of the extrema
  and returns \<^verbatim>\<open>None\<close>.
\<close>

lemma get_bbox_single_polygon:
  assumes "coords_x ds = Some xs" and "xs \<noteq> []" and "coords_y ds = Some ys" and "ys \<noteq> []"
    and "spatial_epsg ds = Some epsg" and "crs_known lib (''epsg:'' @ epsg)"
    and "background lib = Inr ()" and "\<And>e. set_extent lib e = Inr ()" and "\<And>g. plot lib g = Inr ()"
  shows "\<exists>fig. get_bbox_single lib ds = Inr (None, fig)
      \<and> drawn fig = \<lparr>crs = ''epsg:4326'',
           geometry = map (transform lib (''epsg:'' @ epsg) ''epsg:4326'')
             [(Min (set xs), Min (set ys)), (Max (set xs), Min (set ys)),
              (Max (set xs), Max (set ys)), (Min (set xs), Max (set ys)),
              (Min (set xs), Min (set ys))]\<rparr>"
  using assms
  by (simp add: get_bbox_single_def coords_data_def array_min_Min array_max_Max Let_def)

text \<open>
  The plotting calls can end the call after the rectangle is computed: coordinate values
  that are not degrees give an extent that the map rejects.
\<close>

lemma get_bbox_single_off_map:
  "get_bbox_single example_library off_map_dataset = Inl ValueError"
  by (simp add: get_bbox_single_def example_library_def off_map_dataset_def coords_data_def
      total_bounds_def)

section \<open>The containment test on a rectangle\<close>

text \<open>
  On an axis-parallel rectangle, given as the catalog gives it, the boundary is the four
  sides and \<^verbatim>\<open>contains\<close> holds of the points strictly between them.
\<close>

lemma on_boundary_rectangle:
  assumes "x0 < x1" and "y0 < y1"
  shows "on_boundary (x, y) [(x0, y0), (x1, y0), (x1, y1), (x0, y1), (x0, y0)]
     \<longleftrightarrow> ((x = x0 \<or> x = x1) \<and> y0 \<le> y \<and> y \<le> y1) \<or> ((y = y0 \<or> y = y1) \<and> x0 \<le> x \<and> x \<le> x1)"
  using assms
  by (auto simp: on_boundary_def edges_def on_segment_def orientation_def min_def max_def)

lemma shapely_contains_rectangle:
  assumes "x0 < x1" and "y0 < y1"
  shows "shapely_contains [(x0, y0), (x1, y0), (x1, y1), (x0, y1), (x0, y0)] (x, y)
     \<longleftrightarrow> x0 < x \<and> x < x1 \<and> y0 < y \<and> y < y1"
proof -
  have b: "on_boundary (x, y) [(x0, y0), (x1, y0), (x1, y1), (x0, y1), (x0, y0)]
     \<longleftrightarrow> ((x = x0 \<or> x = x1) \<and> y0 \<le> y \<and> y \<le> y1) \<or> ((y = y0 \<or> y = y1) \<and> x0 \<le> x \<and> x \<le> x1)"
    using assms by (rule on_boundary_rectangle)
  show ?thesis
    unfolding shapely_contains_def locate_def b
    using assms
    by (auto simp: edges_def crosses_def)
qed

section \<open>The example catalog\<close>

lemma example_is_catalog: "is_catalog example_catalog example_features"
  by (simp add: is_catalog_def example_catalog_def example_features_def represents_def
      feature_ring_def feature_property_def geojson_feature_def)

lemma example_polygons:
  "f \<in> set example_features \<Longrightarrow> shapely_Polygon (ring f) = Inr (example_footprint f)"
  by (auto simp: example_features_def example_footprint_def shapely_Polygon_def rectangle_def)

section \<open>Claims\<close>

text \<open>
  C1. On every well-formed catalog and every point, the point lookup returns exactly
  the locators of the features whose footprint polygon contains the point: each returned
  locator is that of a containing feature, each containing feature's locator is returned,
  the locators come in catalog order with one entry per containing feature (so none is
  repeated unless the catalog itself repeats it), and the result is empty when no
  footprint contains the point. The statement holds for whatever polygon constructor and
  containment test the geometry library provides, as long as the constructor accepts
  every footprint of the catalog.
\<close>

theorem find_granule_by_point_exact:
  assumes cat: "is_catalog input_dict fs"
    and poly: "\<And>f. f \<in> set fs \<Longrightarrow> Polygon (ring f) = Inr (footprint f)"
  shows "\<exists>urls. find_granule_by_point Polygon contains input_dict [lon, lat] = Inr (map JStr urls)
      \<and> urls = map locator (filter (\<lambda>f. contains (footprint f) (lon, lat)) fs)
      \<and> (\<forall>u\<in>set urls. \<exists>f\<in>set fs. contains (footprint f) (lon, lat) \<and> u = locator f)
      \<and> (\<forall>f\<in>set fs. contains (footprint f) (lon, lat) \<longrightarrow> locator f \<in> set urls)
      \<and> subseq urls (map locator fs)
      \<and> (distinct (map locator fs) \<longrightarrow> distinct urls)
      \<and> ((\<forall>f\<in>set fs. \<not> contains (footprint f) (lon, lat)) \<longrightarrow> urls = [])"
proof -
  let ?sel = "filter (\<lambda>f. contains (footprint f) (lon, lat)) fs"
  have "find_granule_by_point Polygon contains input_dict [lon, lat]
      = Inr (map (\<lambda>f. JStr (locator f)) ?sel)"
    using cat poly by (rule find_granule_by_point_catalog)
  then have res: "find_granule_by_point Polygon contains input_dict [lon, lat]
      = Inr (map JStr (map locator ?sel))"
    by (simp add: comp_def)
  have sub: "subseq (map locator ?sel) (map locator fs)"
    by (simp add: subseq_map)
  have dist: "distinct (map locator fs) \<longrightarrow> distinct (map locator ?sel)"
    by (simp add: distinct_map_filter)
  have none: "(\<forall>f\<in>set fs. \<not> contains (footprint f) (lon, lat)) \<longrightarrow> map locator ?sel = []"
    by (simp add: filter_empty_conv)
  have sound: "\<forall>u\<in>set (map locator ?sel). \<exists>f\<in>set fs. contains (footprint f) (lon, lat) \<and> u = locator f"
    by auto
  have complete: "\<forall>f\<in>set fs. contains (footprint f) (lon, lat) \<longrightarrow> locator f \<in> set (map locator ?sel)"
    by auto
  from res sound complete sub dist none show ?thesis
    by blast
qed

theorem find_granule_by_point_exact_witness:
  "is_catalog example_catalog example_features
   \<and> find_granule_by_point shapely_Polygon shapely_contains example_catalog [339 / 4, 57 / 2]
       = Inr [JStr ''http://its-live-data.s3.amazonaws.com/a.zarr'',
              JStr ''http://its-live-data.s3.amazonaws.com/b.zarr'']
   \<and> find_granule_by_point shapely_Polygon shapely_contains example_catalog [0, 0] = Inr []"
proof -
  note cat = example_is_catalog and poly = example_polygons
  have sel1: "map locator (filter (\<lambda>f. shapely_contains (example_footprint f) (339 / 4, 57 / 2))
        example_features)
      = [''http://its-live-data.s3.amazonaws.com/a.zarr'',
         ''http://its-live-data.s3.amazonaws.com/b.zarr'']"
    by (simp add: example_features_def example_footprint_def shapely_Polygon_def rectangle_def
        shapely_contains_def locate_def on_boundary_def edges_def on_segment_def crosses_def
        orientation_def)
  have sel2: "map locator (filter (\<lambda>f. shapely_contains (example_footprint f) (0, 0))
        example_features) = []"
    by (simp add: example_features_def example_footprint_def shapely_Polygon_def rectangle_def
        shapely_contains_def locate_def on_boundary_def edges_def on_segment_def crosses_def
        orientation_def)
  from find_granule_by_point_exact
      [where Polygon = shapely_Polygon and footprint = example_footprint
         and contains = shapely_contains and lon = "339 / 4" and lat = "57 / 2", OF cat poly]
    find_granule_by_point_exact
      [where Polygon = shapely_Polygon and footprint = example_footprint
         and contains = shapely_contains and lon = 0 and lat = 0, OF cat poly]
    cat sel1 sel2
  show ?thesis by auto
qed

text \<open>
  C2 (as the code has it). The containment test of the point lookup is Shapely's
  \<^verbatim>\<open>contains\<close>, which holds for the points of the polygon's interior only: on every
  well-formed catalog, a feature whose footprint boundary passes through the point is not
  selected, so the lookup returns the locators of the features that have the point
  strictly inside, and nothing when the point lies on the boundary of every footprint.
  (On a rectangular footprint, \<open>shapely_contains_rectangle\<close> gives the test as four
  strict inequalities.)
\<close>

theorem find_granule_by_point_excludes_boundary:
  assumes cat: "is_catalog input_dict fs"
    and poly: "\<And>f. f \<in> set fs \<Longrightarrow> shapely_Polygon (ring f) = Inr (footprint f)"
  shows "find_granule_by_point shapely_Polygon shapely_contains input_dict [lon, lat]
       = Inr (map (\<lambda>f. JStr (locator f))
           (filter (\<lambda>f. \<not> on_boundary (lon, lat) (footprint f)
                        \<and> shapely_contains (footprint f) (lon, lat)) fs))
     \<and> ((\<forall>f\<in>set fs. on_boundary (lon, lat) (footprint f)) \<longrightarrow>
          find_granule_by_point shapely_Polygon shapely_contains input_dict [lon, lat] = Inr [])"
proof -
  have excl: "shapely_contains shell q \<longleftrightarrow> \<not> on_boundary q shell \<and> shapely_contains shell q"
    for shell q
    by (auto simp: shapely_contains_def locate_def)
  have res: "find_granule_by_point shapely_Polygon shapely_contains input_dict [lon, lat]
      = Inr (map (\<lambda>f. JStr (locator f))
          (filter (\<lambda>f. shapely_contains (footprint f) (lon, lat)) fs))"
    using cat poly by (rule find_granule_by_point_catalog)
  have sel: "filter (\<lambda>f. shapely_contains (footprint f) (lon, lat)) fs
      = filter (\<lambda>f. \<not> on_boundary (lon, lat) (footprint f)
                     \<and> shapely_contains (footprint f) (lon, lat)) fs"
    using excl by (intro filter_cong) auto
  have "(\<forall>f\<in>set fs. on_boundary (lon, lat) (footprint f)) \<longrightarrow>
      filter (\<lambda>f. \<not> on_boundary (lon, lat) (footprint f)
                     \<and> shapely_contains (footprint f) (lon, lat)) fs = []"
    by (simp add: filter_empty_conv)
  with res sel show ?thesis by simp
qed

theorem find_granule_by_point_excludes_boundary_witness:
  "is_catalog example_catalog example_features
   \<and> on_boundary (169 / 2, 57 / 2) (example_footprint (example_features ! 1))
   \<and> find_granule_by_point shapely_Polygon shapely_contains example_catalog [169 / 2, 57 / 2]
       = Inr [JStr ''http://its-live-data.s3.amazonaws.com/a.zarr'']"
proof -
  note cat = example_is_catalog and poly = example_polygons
  have bd: "on_boundary (169 / 2, 57 / 2) (example_footprint (example_features ! 1))"
    by (simp add: example_features_def example_footprint_def shapely_Polygon_def rectangle_def
        on_boundary_def edges_def on_segment_def orientation_def)
  have sel: "map (\<lambda>f. JStr (locator f))
       (filter (\<lambda>f. \<not> on_boundary (169 / 2, 57 / 2) (example_footprint f)
                      \<and> shapely_contains (example_footprint f) (169 / 2, 57 / 2)) example_features)
      = [JStr ''http://its-live-data.s3.amazonaws.com/a.zarr'']"
    by (simp add: example_features_def example_footprint_def shapely_Polygon_def rectangle_def
        shapely_contains_def locate_def on_boundary_def edges_def on_segment_def crosses_def
        orientation_def)
  from find_granule_by_point_excludes_boundary
      [where footprint = example_footprint and lon = "169 / 2" and lat = "57 / 2", OF cat poly]
    cat bd sel
  show ?thesis by simp
qed

text \<open>
  C2 as stated fails: in the scenario catalog the point (84, 28.5) lies on the western
  edge of the only footprint, and the lookup returns the empty list.
\<close>

theorem boundary_point_counterexample:
  "on_boundary (84, 57 / 2) [(84, 28), (85, 28), (85, 29), (84, 29), (84, 28)]
   \<and> shapely_Polygon (rectangle 84 28 85 29)
       = Inr [(84, 28), (85, 28), (85, 29), (84, 29), (84, 28)]
   \<and> find_granule_by_point shapely_Polygon shapely_contains scenario_catalog [84, 57 / 2] = Inr []"
  by (simp add: find_granule_by_point_def scenario_catalog_def geojson_feature_def rectangle_def
      point_body_def list_index_def shapely_Polygon_def shapely_contains_def locate_def
      on_boundary_def edges_def on_segment_def crosses_def orientation_def)

text \<open>
  C3. Locator translation is a function of the published locator alone: it replaces
  \<^verbatim>\<open>http\<close> by \<^verbatim>\<open>s3\<close> and then deletes \<^verbatim>\<open>.s3.amazonaws.com\<close>, in \<^verbatim>\<open>read_in_s3\<close> as in
  the zone lookup. The catalog's own address translates to
  \<^verbatim>\<open>s3://its-live-data/datacubes/catalog_v02.json\<close>, and every published locator
  \<^verbatim>\<open>http://BUCKET.s3.amazonaws.com/KEY\<close> in which neither text occurs again translates to
  \<^verbatim>\<open>s3://BUCKET/KEY\<close>.
\<close>

theorem s3_url_translation:
  "s3_url ''http://its-live-data.s3.amazonaws.com/datacubes/catalog_v02.json''
     = ''s3://its-live-data/datacubes/catalog_v02.json''
   \<and> s3_url http_url = str_replace (str_replace http_url ''http'' ''s3'') ''.s3.amazonaws.com'' ''''
   \<and> read_in_s3 open_dataset http_url = open_dataset (s3_url http_url)
   \<and> (\<not> sublist ''http'' (''://'' @ bucket @ ''.s3.amazonaws.com'' @ key)
        \<and> \<not> sublist ''.s3.amazonaws.com'' (''s3://'' @ bucket)
        \<and> \<not> sublist ''.s3.amazonaws.com'' key
      \<longrightarrow> s3_url (''http://'' @ bucket @ ''.s3.amazonaws.com'' @ key) = ''s3://'' @ bucket @ key)"
proof -
  have example: "s3_url ''http://its-live-data.s3.amazonaws.com/datacubes/catalog_v02.json''
      = ''s3://its-live-data/datacubes/catalog_v02.json''"
    by (simp add: s3_url_def str_replace_def)
  have general: "s3_url (''http://'' @ bucket @ ''.s3.amazonaws.com'' @ key) = ''s3://'' @ bucket @ key"
    if h: "\<not> sublist ''http'' (''://'' @ bucket @ ''.s3.amazonaws.com'' @ key)"
      and b: "\<not> sublist ''.s3.amazonaws.com'' (''s3://'' @ bucket)"
      and k: "\<not> sublist ''.s3.amazonaws.com'' key"
  proof -
    have "str_replace (''http'' @ ''://'' @ bucket @ ''.s3.amazonaws.com'' @ key) ''http'' ''s3''
        = ''s3'' @ str_replace (''://'' @ bucket @ ''.s3.amazonaws.com'' @ key) ''http'' ''s3''"
      using str_replace_http [of "[]"] by (simp add: str_replace_def)
    also have "\<dots> = (''s3://'' @ bucket) @ ''.s3.amazonaws.com'' @ key"
      using h by (simp add: str_replace_no_occurrence)
    finally have first: "str_replace (''http://'' @ bucket @ ''.s3.amazonaws.com'' @ key) ''http'' ''s3''
        = (''s3://'' @ bucket) @ ''.s3.amazonaws.com'' @ key"
      by simp
    have "str_replace ((''s3://'' @ bucket) @ ''.s3.amazonaws.com'' @ key) ''.s3.amazonaws.com'' ''''
        = str_replace (''s3://'' @ bucket) ''.s3.amazonaws.com'' ''''
          @ str_replace key ''.s3.amazonaws.com'' ''''"
      by (rule str_replace_gateway)
    also have "\<dots> = (''s3://'' @ bucket) @ key"
      using b k by (simp add: str_replace_no_occurrence)
    finally show ?thesis
      unfolding s3_url_def first by simp
  qed
  from example general show ?thesis
    by (simp add: s3_url_def read_in_s3_def)
qed

theorem s3_url_translation_witness:
  "\<not> sublist ''http'' (''://'' @ ''its-live-data'' @ ''.s3.amazonaws.com'' @ ''/datacubes/v02/N40E080/a.zarr'')
   \<and> s3_url ''http://its-live-data.s3.amazonaws.com/datacubes/v02/N40E080/a.zarr''
     = ''s3://its-live-data/datacubes/v02/N40E080/a.zarr''"
proof -
  have h: "\<not> sublist ''http''
      (''://'' @ ''its-live-data'' @ ''.s3.amazonaws.com'' @ ''/datacubes/v02/N40E080/a.zarr'')"
    by code_simp
  have b: "\<not> sublist ''.s3.amazonaws.com'' (''s3://'' @ ''its-live-data'')"
    by code_simp
  have k: "\<not> sublist ''.s3.amazonaws.com'' ''/datacubes/v02/N40E080/a.zarr''"
    by code_simp
  from s3_url_translation
      [where bucket = "''its-live-data''" and key = "''/datacubes/v02/N40E080/a.zarr''"
         and http_url = "[]" and open_dataset = Inr]
    h b k
  show ?thesis by simp
qed


text \<open>
  C4. On every well-formed catalog and zone identifier, the zone lookup returns, in
  catalog order, the translated locators of the features of that zone that the existence
  probe confirms: every returned locator is the translation of the locator of a feature
  whose zone is the requested one, and the probe holds of it; a feature whose translated
  locator the probe rejects is left out and raises nothing; the translation of a
  published locator that begins with \<^verbatim>\<open>http\<close> begins with \<^verbatim>\<open>s3\<close>.
\<close>

theorem find_granules_by_zone_reachable:
  assumes cat: "is_catalog input_dict fs"
  shows "\<exists>urls. find_granules_by_zone lexists input_dict epsg_code = Inr urls
      \<and> urls = filter lexists (map (\<lambda>f. s3_url (locator f)) (filter (\<lambda>f. zone f = epsg_code) fs))
      \<and> (\<forall>u\<in>set urls. lexists u \<and> (\<exists>f\<in>set fs. zone f = epsg_code \<and> u = s3_url (locator f)))
      \<and> (\<forall>f\<in>set fs. zone f = epsg_code \<and> lexists (s3_url (locator f))
            \<longrightarrow> s3_url (locator f) \<in> set urls)
      \<and> subseq urls (map (\<lambda>f. s3_url (locator f)) fs)
      \<and> (\<forall>f\<in>set fs. prefix ''http'' (locator f) \<longrightarrow> prefix ''s3'' (s3_url (locator f)))"
proof -
  let ?t = "\<lambda>f. s3_url (locator f)"
  let ?urls = "filter lexists (map ?t (filter (\<lambda>f. zone f = epsg_code) fs))"
  have form: "?urls = map ?t (filter (\<lambda>f. zone f = epsg_code \<and> lexists (?t f)) fs)"
    by (simp add: filter_map comp_def conj_commute)
  have res: "find_granules_by_zone lexists input_dict epsg_code = Inr ?urls"
    unfolding form using cat by (rule find_granules_by_zone_catalog)
  have sound: "\<forall>u\<in>set ?urls. lexists u \<and> (\<exists>f\<in>set fs. zone f = epsg_code \<and> u = ?t f)"
    by auto
  have complete: "\<forall>f\<in>set fs. zone f = epsg_code \<and> lexists (?t f) \<longrightarrow> ?t f \<in> set ?urls"
    by auto
  have sub: "subseq ?urls (map ?t fs)"
    unfolding form by (simp add: subseq_map)
  have s3: "\<forall>f\<in>set fs. prefix ''http'' (locator f) \<longrightarrow> prefix ''s3'' (?t f)"
    by (simp add: s3_url_http_prefix)
  from res sound complete sub s3 show ?thesis
    by blast
qed

theorem find_granules_by_zone_reachable_witness:
  "is_catalog example_catalog example_features
   \<and> find_granules_by_zone (\<lambda>u. u \<noteq> ''s3://its-live-data/b.zarr'') example_catalog ''EPSG:32645''
       = Inr [''s3://its-live-data/a.zarr'']"
proof -
  have "filter (\<lambda>u. u \<noteq> ''s3://its-live-data/b.zarr'')
      (map (\<lambda>f. s3_url (locator f)) (filter (\<lambda>f. zone f = ''EPSG:32645'') example_features))
      = [''s3://its-live-data/a.zarr'']"
    by (simp add: example_features_def s3_url_def str_replace_def)
  with find_granules_by_zone_reachable
      [OF example_is_catalog, where lexists = "\<lambda>u. u \<noteq> ''s3://its-live-data/b.zarr''"
        and epsg_code = "''EPSG:32645''"]
    example_is_catalog
  show ?thesis by auto
qed

text \<open>
  C10. The two lookups return locators in different forms. On every well-formed catalog
  the point lookup returns, for each feature whose footprint contains the point and for no
  other, the \<^verbatim>\<open>zarr_url\<close> of the feature exactly as the catalog publishes it, and the
  zone lookup returns, for each feature of the zone that the probe confirms and for no
  other, the translation of its \<^verbatim>\<open>zarr_url\<close>. The translation of a locator published
  with the \<^verbatim>\<open>http\<close> scheme begins with \<^verbatim>\<open>s3\<close> and differs from it, so what the point
  lookup returns has still to be translated before it names an object of the store;
  \<^verbatim>\<open>read_in_s3\<close>, to which the notebook passes it, does so.
\<close>

theorem lookups_return_different_forms:
  assumes cat: "is_catalog input_dict fs"
    and poly: "\<And>f. f \<in> set fs \<Longrightarrow> Polygon (ring f) = Inr (footprint f)"
  shows "find_granule_by_point Polygon contains input_dict [lon, lat]
        = Inr (map (\<lambda>f. JStr (locator f)) (filter (\<lambda>f. contains (footprint f) (lon, lat)) fs))
      \<and> find_granules_by_zone lexists input_dict epsg_code
        = Inr (map (\<lambda>f. s3_url (locator f))
            (filter (\<lambda>f. zone f = epsg_code \<and> lexists (s3_url (locator f))) fs))
      \<and> (\<forall>f\<in>set fs. contains (footprint f) (lon, lat) \<longrightarrow>
            (\<exists>urls. find_granule_by_point Polygon contains input_dict [lon, lat] = Inr urls
                    \<and> JStr (locator f) \<in> set urls))
      \<and> (\<forall>f\<in>set fs. prefix ''http'' (locator f)
            \<longrightarrow> prefix ''s3'' (s3_url (locator f)) \<and> s3_url (locator f) \<noteq> locator f)
      \<and> (\<forall>f\<in>set fs. read_in_s3 open_dataset (locator f) = open_dataset (s3_url (locator f)))"
proof -
  have p: "find_granule_by_point Polygon contains input_dict [lon, lat]
      = Inr (map (\<lambda>f. JStr (locator f)) (filter (\<lambda>f. contains (footprint f) (lon, lat)) fs))"
    using cat poly by (rule find_granule_by_point_catalog)
  have t: "find_granules_by_zone lexists input_dict epsg_code
      = Inr (map (\<lambda>f. s3_url (locator f))
          (filter (\<lambda>f. zone f = epsg_code \<and> lexists (s3_url (locator f))) fs))"
    using cat by (rule find_granules_by_zone_catalog)
  have verbatim: "\<forall>f\<in>set fs. contains (footprint f) (lon, lat) \<longrightarrow>
      (\<exists>urls. find_granule_by_point Polygon contains input_dict [lon, lat] = Inr urls
              \<and> JStr (locator f) \<in> set urls)"
    unfolding p by auto
  have differ: "\<forall>f\<in>set fs. prefix ''http'' (locator f)
      \<longrightarrow> prefix ''s3'' (s3_url (locator f)) \<and> s3_url (locator f) \<noteq> locator f"
    by (simp add: s3_url_http_prefix)
  have caller: "\<forall>f\<in>set fs. read_in_s3 open_dataset (locator f) = open_dataset (s3_url (locator f))"
    by (simp add: read_in_s3_def)
  from p t verbatim differ caller show ?thesis
    by blast
qed

theorem lookups_return_different_forms_witness:
  "find_granule_by_point shapely_Polygon shapely_contains example_catalog [339 / 4, 57 / 2]
       = Inr [JStr ''http://its-live-data.s3.amazonaws.com/a.zarr'',
              JStr ''http://its-live-data.s3.amazonaws.com/b.zarr'']
   \<and> find_granules_by_zone (\<lambda>u. True) example_catalog ''EPSG:32645''
       = Inr [''s3://its-live-data/a.zarr'', ''s3://its-live-data/b.zarr'']"
proof -
  have p: "map (\<lambda>f. JStr (locator f))
        (filter (\<lambda>f. shapely_contains (example_footprint f) (339 / 4, 57 / 2)) example_features)
       = [JStr ''http://its-live-data.s3.amazonaws.com/a.zarr'',
          JStr ''http://its-live-data.s3.amazonaws.com/b.zarr'']"
    by (simp add: example_features_def example_footprint_def shapely_Polygon_def rectangle_def
        shapely_contains_def locate_def on_boundary_def edges_def on_segment_def crosses_def
        orientation_def)
  have t: "map (\<lambda>f. s3_url (locator f))
        (filter (\<lambda>f. zone f = ''EPSG:32645'' \<and> (\<lambda>u. True) (s3_url (locator f))) example_features)
       = [''s3://its-live-data/a.zarr'', ''s3://its-live-data/b.zarr'']"
    by (simp add: example_features_def s3_url_def str_replace_def)
  from lookups_return_different_forms
      [where Polygon = shapely_Polygon and footprint = example_footprint
         and contains = shapely_contains and lon = "339 / 4" and lat = "57 / 2"
         and lexists = "\<lambda>u. True" and epsg_code = "''EPSG:32645''" and open_dataset = Inr,
       OF example_is_catalog example_polygons]
    p t
  show ?thesis by simp
qed


text \<open>
  C6 (as the code has it). \<^verbatim>\<open>get_bbox_single\<close> raises whenever the dataset carries no
  projection that the projection library recognises, and then neither returns nor draws
  a geometry. The code has no error of its own for this. When both coordinates are
  present and non-empty the exception is Python's \<^verbatim>\<open>AttributeError\<close> (no
  \<^verbatim>\<open>mapping.spatial_epsg\<close>) or the projection library's error (an identifier it does not
  know); when a coordinate is missing or empty, its \<^verbatim>\<open>KeyError\<close> or \<^verbatim>\<open>ValueError\<close> is
  raised first, since the extrema are computed before the projection is read.
\<close>

theorem get_bbox_single_without_projection:
  assumes "spatial_epsg ds = None
           \<or> (\<exists>epsg. spatial_epsg ds = Some epsg \<and> \<not> crs_known lib (''epsg:'' @ epsg))"
  shows "(\<exists>e. get_bbox_single lib ds = Inl e)
      \<and> (coords_x ds = Some xs \<and> xs \<noteq> [] \<and> coords_y ds = Some ys \<and> ys \<noteq> []
          \<longrightarrow> get_bbox_single lib ds
                = Inl (if spatial_epsg ds = None then AttributeError else CRSError))
      \<and> (coords_x ds = None \<longrightarrow> get_bbox_single lib ds = Inl KeyError)
      \<and> (coords_x ds = Some [] \<longrightarrow> get_bbox_single lib ds = Inl ValueError)
      \<and> (coords_x ds = Some xs \<and> xs \<noteq> [] \<and> coords_y ds = None
          \<longrightarrow> get_bbox_single lib ds = Inl KeyError)
      \<and> (coords_x ds = Some xs \<and> xs \<noteq> [] \<and> coords_y ds = Some []
          \<longrightarrow> get_bbox_single lib ds = Inl ValueError)"
proof -
  have fails: "\<exists>e. get_bbox_single lib ds = Inl e"
    using assms
    by (auto simp: get_bbox_single_def bind_def Let_def split: sum.splits option.splits)
  have which: "get_bbox_single lib ds
      = Inl (if spatial_epsg ds = None then AttributeError else CRSError)"
    if "coords_x ds = Some xs" "xs \<noteq> []" "coords_y ds = Some ys" "ys \<noteq> []"
    using assms that
    by (auto simp: get_bbox_single_def coords_data_def array_min_Min array_max_Max Let_def)
  have x_missing: "get_bbox_single lib ds = Inl KeyError" if "coords_x ds = None"
    using that by (simp add: get_bbox_single_def coords_data_def)
  have x_empty: "get_bbox_single lib ds = Inl ValueError" if "coords_x ds = Some []"
    using that by (simp add: get_bbox_single_def coords_data_def)
  have y_missing: "get_bbox_single lib ds = Inl KeyError"
    if "coords_x ds = Some xs" "xs \<noteq> []" "coords_y ds = None"
    using that by (simp add: get_bbox_single_def coords_data_def array_min_Min array_max_Max)
  have y_empty: "get_bbox_single lib ds = Inl ValueError"
    if "coords_x ds = Some xs" "xs \<noteq> []" "coords_y ds = Some []"
    using that by (simp add: get_bbox_single_def coords_data_def array_min_Min array_max_Max)
  from fails which x_missing x_empty y_missing y_empty show ?thesis by blast
qed

theorem get_bbox_single_without_projection_witness:
  "get_bbox_single example_library (example_dataset\<lparr>spatial_epsg := None\<rparr>) = Inl AttributeError
   \<and> get_bbox_single example_library (example_dataset\<lparr>spatial_epsg := Some ''utm45n''\<rparr>)
       = Inl CRSError"
proof -
  have "spatial_epsg (example_dataset\<lparr>spatial_epsg := None\<rparr>) = None
      \<or> (\<exists>epsg. spatial_epsg (example_dataset\<lparr>spatial_epsg := None\<rparr>) = Some epsg
            \<and> \<not> crs_known example_library (''epsg:'' @ epsg))"
    by simp
  from get_bbox_single_without_projection
      [OF this, where xs = "[84, 169 / 2, 85]" and ys = "[29, 57 / 2, 28]"]
  have a: "get_bbox_single example_library (example_dataset\<lparr>spatial_epsg := None\<rparr>)
     = Inl AttributeError"
    by (simp add: example_dataset_def)
  have "spatial_epsg (example_dataset\<lparr>spatial_epsg := Some ''utm45n''\<rparr>) = None
      \<or> (\<exists>epsg. spatial_epsg (example_dataset\<lparr>spatial_epsg := Some ''utm45n''\<rparr>) = Some epsg
            \<and> \<not> crs_known example_library (''epsg:'' @ epsg))"
    by (simp add: example_library_def)
  from get_bbox_single_without_projection
      [OF this, where xs = "[84, 169 / 2, 85]" and ys = "[29, 57 / 2, 28]"]
  have b: "get_bbox_single example_library (example_dataset\<lparr>spatial_epsg := Some ''utm45n''\<rparr>)
     = Inl CRSError"
    by (simp add: example_dataset_def)
  from a b show ?thesis by simp
qed

text \<open>
  C6 as stated fails: a dataset without projection whose \<^verbatim>\<open>x\<close> coordinate is empty, or
  missing, makes the call raise the exception of the coordinate, not one of the
  projection.
\<close>

theorem missing_projection_counterexample:
  "spatial_epsg \<lparr>coords_x = Some [], coords_y = Some [29, 28], spatial_epsg = None\<rparr> = None
   \<and> get_bbox_single example_library
       \<lparr>coords_x = Some [], coords_y = Some [29, 28], spatial_epsg = None\<rparr> = Inl ValueError
   \<and> get_bbox_single example_library
       \<lparr>coords_x = None, coords_y = Some [29, 28], spatial_epsg = None\<rparr> = Inl KeyError"
  by (simp add: get_bbox_single_def coords_data_def)

text \<open>
  C7 (as the code has it). A lookup raises when a field that it reads is missing, and
  reads no more than it needs. The point lookup reads the coordinate ring of every
  feature, and the locator of the features whose footprint contains the point; the zone
  lookup reads the zone identifier of every feature, and the locator of the features of
  the requested zone. A catalog in which one of these reads fails (the key is absent, or
  the value above it is not a dict or a list) makes the lookup raise that Python
  exception instead of returning a list.
\<close>

theorem lookups_raise_on_fields_they_read:
  assumes feats: "getitem input_dict ''features'' = Inr (JArr js)" and i: "i < length js"
  shows "(feature_ring (js ! i) = Inl e
            \<longrightarrow> (\<exists>e'. find_granule_by_point Polygon contains input_dict [lon, lat] = Inl e'))
      \<and> (feature_ring (js ! i) = Inr r \<and> Polygon r = Inr g \<and> contains g (lon, lat)
          \<and> feature_property (js ! i) ''zarr_url'' = Inl e
            \<longrightarrow> (\<exists>e'. find_granule_by_point Polygon contains input_dict [lon, lat] = Inl e'))
      \<and> (feature_property (js ! i) ''data_epsg'' = Inl e
            \<longrightarrow> (\<exists>e'. find_granules_by_zone lexists input_dict epsg_code = Inl e'))
      \<and> (feature_property (js ! i) ''data_epsg'' = Inr (JStr epsg_code)
          \<and> feature_property (js ! i) ''zarr_url'' = Inl e
            \<longrightarrow> (\<exists>e'. find_granules_by_zone lexists input_dict epsg_code = Inl e'))"
proof -
  have ring: "point_body Polygon contains input_dict (lon, lat) i = Inl e"
    if "feature_ring (js ! i) = Inl e"
    using that feats i
    by (auto simp: point_body_def feature_ring_def bind_eq_Inl)
  have purl: "point_body Polygon contains input_dict (lon, lat) i = Inl e"
    if "feature_ring (js ! i) = Inr r" "Polygon r = Inr g" "contains g (lon, lat)"
      "feature_property (js ! i) ''zarr_url'' = Inl e"
    using that feats i
    by (auto simp: point_body_def feature_ring_def feature_property_def bind_eq_Inr bind_eq_Inl)
  have zone: "zone_body lexists input_dict epsg_code i = Inl e"
    if "feature_property (js ! i) ''data_epsg'' = Inl e"
    using that feats i
    by (auto simp: zone_body_def feature_property_def bind_eq_Inl)
  have zurl: "zone_body lexists input_dict epsg_code i = Inl e"
    if "feature_property (js ! i) ''data_epsg'' = Inr (JStr epsg_code)"
      "feature_property (js ! i) ''zarr_url'' = Inl e"
    using that feats i
    by (auto simp: zone_body_def feature_property_def bind_eq_Inr bind_eq_Inl)
  show ?thesis
    using ring purl zone zurl
      find_granule_by_point_raises [OF feats i, of Polygon contains lon lat e]
      find_granules_by_zone_raises [OF feats i, of lexists epsg_code e]
    by blast
qed

theorem lookups_raise_on_fields_they_read_witness:
  "find_granule_by_point shapely_Polygon shapely_contains catalog_without_geometry [169 / 2, 57 / 2]
     = Inl KeyError
   \<and> find_granule_by_point shapely_Polygon shapely_contains catalog_without_url [169 / 2, 57 / 2]
     = Inl KeyError
   \<and> find_granules_by_zone (\<lambda>u. True) catalog_without_zone ''EPSG:32645'' = Inl KeyError
   \<and> find_granules_by_zone (\<lambda>u. True) catalog_without_url ''EPSG:32645'' = Inl KeyError"
proof -
  let ?j = "JObj [(''properties'', JObj [(''data_epsg'', JStr ''EPSG:32645''),
                                          (''zarr_url'', JStr ''http://example.com/a.zarr'')])]"
  have feats: "getitem catalog_without_geometry ''features'' = Inr (JArr [?j])"
    by (simp add: catalog_without_geometry_def)
  have i: "0 < length [?j]" by simp
  have ring: "feature_ring ([?j] ! 0) = Inl KeyError"
    by (simp add: feature_ring_def)
  from lookups_raise_on_fields_they_read
      [OF feats i, where e = KeyError and Polygon = shapely_Polygon and contains = shapely_contains
         and lon = "169 / 2" and lat = "57 / 2"]
    ring
  have "\<exists>e'. find_granule_by_point shapely_Polygon shapely_contains catalog_without_geometry
      [169 / 2, 57 / 2] = Inl e'"
    by blast
  moreover have "find_granule_by_point shapely_Polygon shapely_contains catalog_without_geometry
      [169 / 2, 57 / 2] = Inl KeyError"
    by (simp add: find_granule_by_point_def catalog_without_geometry_def point_body_def list_index_def)
  moreover have "find_granule_by_point shapely_Polygon shapely_contains catalog_without_url
      [169 / 2, 57 / 2] = Inl KeyError"
    by (simp add: find_granule_by_point_def catalog_without_url_def rectangle_def
        point_body_def list_index_def shapely_Polygon_def shapely_contains_def locate_def
        on_boundary_def edges_def on_segment_def crosses_def orientation_def)
  moreover have "find_granules_by_zone (\<lambda>u. True) catalog_without_zone ''EPSG:32645'' = Inl KeyError"
    by (simp add: find_granules_by_zone_def catalog_without_zone_def zone_body_def)
  moreover have "find_granules_by_zone (\<lambda>u. True) catalog_without_url ''EPSG:32645'' = Inl KeyError"
    by (simp add: find_granules_by_zone_def catalog_without_url_def zone_body_def)
  ultimately show ?thesis by simp
qed

text \<open>
  C7 as stated fails: a feature that lacks a field the lookup does not read is processed
  like any other. A feature without \<^verbatim>\<open>zarr_url\<close> whose footprint does not contain the point,
  or whose zone is not the requested one, gives the empty list; a feature without zone is
  returned by the point lookup, and a feature without geometry by the zone lookup.
\<close>

theorem malformed_feature_counterexample:
  "feature_property
       (JObj [(''geometry'', JObj [(''coordinates'', JArr [rectangle 84 28 85 29])]),
              (''properties'', JObj [(''data_epsg'', JStr ''EPSG:32645'')])]) ''zarr_url''
     = Inl KeyError
   \<and> find_granule_by_point shapely_Polygon shapely_contains catalog_without_url [0, 0] = Inr []
   \<and> find_granules_by_zone (\<lambda>u. True) catalog_without_url ''EPSG:3413'' = Inr []
   \<and> find_granule_by_point shapely_Polygon shapely_contains catalog_without_zone [169 / 2, 57 / 2]
       = Inr [JStr ''http://example.com/a.zarr'']
   \<and> find_granules_by_zone (\<lambda>u. True) catalog_without_geometry ''EPSG:32645''
       = Inr [''s3://example.com/a.zarr'']"
  by (simp add: find_granule_by_point_def find_granules_by_zone_def catalog_without_url_def
      catalog_without_zone_def catalog_without_geometry_def feature_property_def rectangle_def
      point_body_def zone_body_def list_index_def s3_url_def str_replace_def
      shapely_Polygon_def shapely_contains_def locate_def
      on_boundary_def edges_def on_segment_def crosses_def orientation_def)

end
